theory Spec2Isabelle
  imports Complex_Main
begin

section \<open>Python values shared by both modules\<close>

text \<open>
  Every exception the modelled code can raise is a value. A computation that may raise
  returns \<open>py_error + 'a\<close>, with \<open>Inl\<close> for the exception.
\<close>

datatype py_error =
  AssertionError | KeyError | ValueError | IndexError | AttributeError | TypeError

text \<open>
  A Python \<open>str\<close> is modelled as a list of 8-bit characters, each read as the code point
  of the same number (U+0000 to U+00FF). Numbers are real numbers: the rounding of
  binary64 arithmetic is not part of the model.
\<close>

subsection \<open>\<open>str.split('-')\<close>, \<open>str.isdigit()\<close>, \<open>in\<close>, \<open>float()\<close>\<close>

text \<open>\<open>s.split('-')\<close>: one more part than there are dashes; the empty string gives \<open>['']\<close>.\<close>

fun split_dash :: "string \<Rightarrow> string list" where
  "split_dash [] = [[]]"
| "split_dash (c # cs) =
     (if c = CHR ''-'' then [] # split_dash cs
      else (c # hd (split_dash cs)) # tl (split_dash cs))"

text \<open>
  \<open>str.isdigit()\<close> holds for a non-empty string all of whose characters are digits.
  Below U+0100 the digit characters are \<open>0\<close> to \<open>9\<close> (code points 48 to 57) and the
  superscript digits U+00B2, U+00B3 and U+00B9 (178, 179, 185); only the first ten are
  decimal characters, which is what \<open>float()\<close> accepts.
\<close>

definition chr_isdecimal :: "char \<Rightarrow> bool" where
  "chr_isdecimal c = (48 \<le> (of_char c :: nat) \<and> (of_char c :: nat) \<le> 57)"

definition chr_isdigit :: "char \<Rightarrow> bool" where
  "chr_isdigit c =
     (chr_isdecimal c \<or> (of_char c :: nat) = 178 \<or> (of_char c :: nat) = 179
      \<or> (of_char c :: nat) = 185)"

definition str_isdigit :: "string \<Rightarrow> bool" where
  "str_isdigit s = (s \<noteq> [] \<and> list_all chr_isdigit s)"

text \<open>\<open>sub in s\<close> for strings: \<open>sub\<close> occurs in \<open>s\<close> as a contiguous run.\<close>

fun str_contains :: "string \<Rightarrow> string \<Rightarrow> bool" where
  "str_contains sub [] = (sub = [])"
| "str_contains sub (c # cs) =
     (take (length sub) (c # cs) = sub \<or> str_contains sub cs)"

text \<open>The number that a run of decimal characters denotes.\<close>

definition decimal_value :: "string \<Rightarrow> nat" where
  "decimal_value s = foldl (\<lambda>acc c. 10 * acc + ((of_char c :: nat) - 48)) 0 s"

text \<open>
  \<open>float(t)\<close> on the only texts the code passes to it, those for which \<open>t.isdigit()\<close>
  holds: the number written when every character is a decimal character, and
  ValueError when a superscript digit is among them.
\<close>

definition py_float :: "string \<Rightarrow> py_error + real" where
  "py_float t =
     (if list_all chr_isdecimal t then Inr (real (decimal_value t)) else Inl ValueError)"

section \<open>Module baseLayers: activations\<close>

subsection \<open>The registry \<open>ACTS\<close>\<close>

definition sigmoid :: "real \<Rightarrow> real" where
  "sigmoid z = 1 / (1 + exp (- z))"

definition softplus :: "real \<Rightarrow> real" where
  "softplus z = ln (1 + exp z)"

definition relu :: "real \<Rightarrow> real" where
  "relu z = max 0 z"

definition elu :: "real \<Rightarrow> real" where
  "elu z = (if 0 < z then z else exp z - 1)"

definition linear :: "real \<Rightarrow> real" where
  "linear z = \<bar>z\<bar>"

definition gauss :: "real \<Rightarrow> real" where
  "gauss z = exp (- (z ^ 2))"

definition swish :: "real \<Rightarrow> real" where
  "swish z = z * sigmoid z"

definition laplace :: "real \<Rightarrow> real" where
  "laplace z = exp (- \<bar>z\<bar>)"

definition ACTS :: "string \<rightharpoonup> (real \<Rightarrow> real)" where
  "ACTS = map_of
     [(''tanh'', tanh),
      (''atan'', arctan),
      (''sigmoid'', sigmoid),
      (''softplus'', softplus),
      (''relu'', relu),
      (''elu'', elu),
      (''exp'', exp),
      (''linear'', linear),
      (''gauss'', gauss),
      (''swish'', swish),
      (''laplace'', laplace)]"

subsection \<open>Class \<open>AdaptiveActivation\<close>\<close>

text \<open>
  The attributes \<open>adapt\<close>, \<open>act\<close>, \<open>n\<close> and \<open>a\<close> of the layer (prefixed \<open>aa_\<close>). The
  weight \<open>a\<close> has shape \<open>(1,)\<close>: its one entry is \<open>aa_a\<close>, and \<open>None\<close> says that the
  attribute was never created.
\<close>

record AdaptiveActivation =
  aa_adapt :: bool
  aa_act :: "real \<Rightarrow> real"
  aa_n :: real
  aa_a :: "real option"

text \<open>
  \<open>__init__(self, act)\<close>. The \<open>assert\<close>, the lookup \<open>ACTS[parts[1]]\<close> and \<open>float\<close> are
  the three places that can raise, in this order. \<open>add_weight\<close> with the initializer
  \<open>'ones'\<close> creates the weight with the value 1.
\<close>

definition AdaptiveActivation_init :: "string \<Rightarrow> py_error + AdaptiveActivation" where
  "AdaptiveActivation_init s =
     (let parts = split_dash s in
      if length parts \<noteq> 3 then Inl AssertionError
      else
        let adapt = str_contains ''ad'' (parts ! 0) in
        case ACTS (parts ! 1) of
          None \<Rightarrow> Inl KeyError
        | Some f \<Rightarrow>
            (case (if str_isdigit (last parts) then py_float (last parts) else Inr 1) of
               Inl e \<Rightarrow> Inl e
             | Inr d \<Rightarrow>
                 Inr \<lparr>aa_adapt = adapt, aa_act = f, aa_n = d,
                      aa_a = (if adapt then Some 1 else None)\<rparr>))"



subsection \<open>Function \<open>Activation\<close>\<close>

text \<open>What \<open>Activation\<close> returns: a registry function, the string itself, or a layer.\<close>

datatype activation =
  Function "real \<Rightarrow> real"
| Name string
| Layer AdaptiveActivation

definition Activation :: "string \<Rightarrow> py_error + activation" where
  "Activation s =
     (let parts = split_dash s in
      if length parts = 1 then
        (case ACTS s of Some f \<Rightarrow> Inr (Function f) | None \<Rightarrow> Inr (Name s))
      else
        (case AdaptiveActivation_init s of Inl e \<Rightarrow> Inl e | Inr L \<Rightarrow> Inr (Layer L)))"

section \<open>Module misc: arrays\<close>

text \<open>
  A batch of points \<open>X\<close> of shape \<open>(N, d)\<close> is the list of its \<open>N\<close> rows, each a list of
  \<open>d\<close> coordinates; leading axes of an array of shape \<open>(..., d)\<close> are flattened, as
  \<open>X.reshape(-1, X.shape[-1])\<close> does. The empty list stands for the array of shape
  \<open>(0, 0)\<close>. Division by zero and \<open>arccosh\<close> below 1 give \<open>inf\<close> or \<open>nan\<close> in NumPy and
  raise nothing; the model uses the total functions of the reals there, and its
  theorems stay inside the domain.
\<close>

text \<open>\<open>X.shape[-1]\<close>.\<close>

definition ncols :: "real list list \<Rightarrow> nat" where
  "ncols X = (case X of [] \<Rightarrow> 0 | r # _ \<Rightarrow> length r)"

text \<open>
  \<open>X.reshape(-1, X.shape[-1]).min(axis=0)\<close> and \<open>.max(axis=0)\<close>: the reduction of every
  column. With no columns the reshape raises ValueError, with no rows the reduction
  does.
\<close>

definition col_reduce ::
  "(real \<Rightarrow> real \<Rightarrow> real) \<Rightarrow> real list list \<Rightarrow> py_error + real list" where
  "col_reduce f X =
     (if X = [] \<or> ncols X = 0 then Inl ValueError
      else Inr (foldl (\<lambda>acc r. map2 f acc r) (hd X) (tl X)))"

text \<open>\<open>V.min()\<close> and \<open>V.max()\<close> of a one-dimensional array: ValueError when it is empty.\<close>

definition arr_reduce :: "(real \<Rightarrow> real \<Rightarrow> real) \<Rightarrow> real list \<Rightarrow> py_error + real" where
  "arr_reduce f V = (if V = [] then Inl ValueError else Inr (foldl f (hd V) (tl V)))"

text \<open>
  \<open>if self.attr is None: self.attr = compute\<close>: the attribute after the statement, or
  the error of the computation, which then leaves the attribute as it was.
\<close>

definition cached :: "'a option \<Rightarrow> (py_error + 'a) \<Rightarrow> py_error + 'a option" where
  "cached cur compute =
     (case cur of
        Some v \<Rightarrow> Inr (Some v)
      | None \<Rightarrow> (case compute of Inl e \<Rightarrow> Inl e | Inr v \<Rightarrow> Inr (Some v)))"

text \<open>
  A slice \<open>xs[start:stop]\<close> with integer bounds: a negative bound counts from the end,
  and both are clipped to the list.
\<close>

definition slice_bound :: "nat \<Rightarrow> int \<Rightarrow> nat" where
  "slice_bound len i = (if i < 0 then nat (max 0 (int len + i)) else min (nat i) len)"

definition py_slice :: "'a list \<Rightarrow> int \<Rightarrow> int \<Rightarrow> 'a list" where
  "py_slice xs start stop =
     (let lo = slice_bound (length xs) start; hi = slice_bound (length xs) stop
      in take (hi - lo) (drop lo xs))"

text \<open>
  Broadcasting along the last axis: two lengths are compatible when they are equal or
  one of them is 1, and an axis of length 1 repeats its entry.
\<close>

definition bshape :: "nat \<Rightarrow> nat \<Rightarrow> py_error + nat" where
  "bshape k l =
     (if k = l then Inr k else if k = 1 then Inr l else if l = 1 then Inr k
      else Inl ValueError)"

definition bentry :: "real list \<Rightarrow> nat \<Rightarrow> real" where
  "bentry xs i = (if length xs = 1 then xs ! 0 else xs ! i)"

text \<open>\<open>f(X, v)\<close> for a batch \<open>X\<close> of shape \<open>(N, d)\<close> and an array \<open>v\<close> of shape \<open>(1, k)\<close>.\<close>

definition bbatch ::
  "(real \<Rightarrow> real \<Rightarrow> real) \<Rightarrow> real list list \<Rightarrow> real list \<Rightarrow> py_error + real list list" where
  "bbatch f X v =
     (case bshape (ncols X) (length v) of
        Inl e \<Rightarrow> Inl e
      | Inr k \<Rightarrow> Inr (map (\<lambda>r. map (\<lambda>i. f (bentry r i) (bentry v i)) [0..<k]) X))"

section \<open>Module misc: the vertical-gradient model\<close>

text \<open>
  The attributes of \<open>VerticalGradient\<close> (prefixed \<open>vg_\<close>); \<open>None\<close> is Python's \<open>None\<close>.
\<close>

record VerticalGradient =
  vg_v0 :: real
  vg_a :: real
  vg_xmin :: "real list option"
  vg_xmax :: "real list option"
  vg_min :: "real option"
  vg_max :: "real option"
  vg_dim :: "nat option"

text \<open>\<open>__init__(self, v0, a, xmin=None, xmax=None)\<close>; the class leaves the rest at \<open>None\<close>.\<close>

definition VerticalGradient_init ::
  "real \<Rightarrow> real \<Rightarrow> real list option \<Rightarrow> real list option \<Rightarrow> VerticalGradient" where
  "VerticalGradient_init v0 a xmin xmax =
     \<lparr>vg_v0 = v0, vg_a = a, vg_xmin = xmin, vg_xmax = xmax,
      vg_min = None, vg_max = None, vg_dim = None\<rparr>"

text \<open>
  \<open>__call__(self, X)\<close>: what the call returns or raises, and the object after it. An
  attribute assigned before a later statement raises stays assigned.
\<close>

definition VerticalGradient_call ::
  "VerticalGradient \<Rightarrow> real list list \<Rightarrow> (py_error + real list) \<times> VerticalGradient" where
  "VerticalGradient_call m X =
     (case cached (vg_xmin m) (col_reduce min X) of
        Inl e \<Rightarrow> (Inl e, m)
      | Inr lo \<Rightarrow>
          let m1 = m\<lparr>vg_xmin := lo\<rparr> in
          (case cached (vg_xmax m1) (col_reduce max X) of
             Inl e \<Rightarrow> (Inl e, m1)
           | Inr hi \<Rightarrow>
               let m2 = m1\<lparr>vg_xmax := hi\<rparr>;
                   m3 = (if vg_dim m2 = None then m2\<lparr>vg_dim := Some (ncols X)\<rparr> else m2)
               in
               if ncols X = 0 then (Inl IndexError, m3)
               else
                 let V = map (\<lambda>r. vg_v0 m3 + vg_a m3 * last r) X in
                 (case cached (vg_min m3) (arr_reduce min V) of
                    Inl e \<Rightarrow> (Inl e, m3)
                  | Inr vlo \<Rightarrow>
                      let m4 = m3\<lparr>vg_min := vlo\<rparr> in
                      (case cached (vg_max m4) (arr_reduce max V) of
                         Inl e \<Rightarrow> (Inl e, m4)
                       | Inr vhi \<Rightarrow> (Inr V, m4\<lparr>vg_max := vhi\<rparr>)))))"

text \<open>
  \<open>gradient(self, X)\<close>: zeros shaped like \<open>X[..., :-1]\<close> followed by \<open>a\<close> shaped like
  \<open>X[..., -2:-1]\<close>, joined along the last axis.
\<close>

definition VerticalGradient_gradient ::
  "VerticalGradient \<Rightarrow> real list list \<Rightarrow> real list list" where
  "VerticalGradient_gradient m X =
     map (\<lambda>r. map (\<lambda>_. 0) (py_slice r 0 (- 1)) @ map (\<lambda>_. vg_a m) (py_slice r (- 2) (- 1))) X"

text \<open>
  The two terms of \<open>time\<close> for one row \<open>r\<close> of \<open>Xdiff\<close>:
  \<open>up = self.a**2 * (Xdiff**2).sum(axis=-1)\<close> and
  \<open>down = 2 * Vxszs * (self.a * Xdiff[...,-1] + Vxszs)\<close>.
\<close>

definition time_up :: "real \<Rightarrow> real list \<Rightarrow> real" where
  "time_up a r = a ^ 2 * sum_list (map (\<lambda>x. x ^ 2) r)"

definition time_down :: "real \<Rightarrow> real \<Rightarrow> real list \<Rightarrow> real" where
  "time_down a Vxszs r = 2 * Vxszs * (a * last r + Vxszs)"

text \<open>
  \<open>time(self, X, xs)\<close>. \<open>X - xs[None, :]\<close> is evaluated first; then \<open>self(xs)\<close>, a value
  query on the single point \<open>xs\<close>, which may fill the cached attributes; then
  \<open>tau = np.arccosh(up / down + 1) / self.a\<close>.
\<close>

definition VerticalGradient_time ::
  "VerticalGradient \<Rightarrow> real list list \<Rightarrow> real list
     \<Rightarrow> (py_error + real list) \<times> VerticalGradient" where
  "VerticalGradient_time m X xs =
     (case bbatch (\<lambda>x y. x - y) X xs of
        Inl e \<Rightarrow> (Inl e, m)
      | Inr Xdiff \<Rightarrow>
          (case VerticalGradient_call m [xs] of
             (Inl e, m') \<Rightarrow> (Inl e, m')
           | (Inr Vs, m') \<Rightarrow>
               if ncols Xdiff = 0 then (Inl IndexError, m')
               else
                 let Vxszs = hd Vs;
                     tau = map (\<lambda>r. arcosh (time_up (vg_a m') r
                                               / time_down (vg_a m') Vxszs r + 1)
                                      / vg_a m') Xdiff
                 in (Inr tau, m')))"

section \<open>Module misc: the Gaussian-anomaly model\<close>

text \<open>
  The attributes of \<open>LocAnomaly\<close> (prefixed \<open>la_\<close>). \<open>mus\<close> and \<open>sigmas\<close> have shape
  \<open>(1, k)\<close> and are given by their one row.
\<close>

record LocAnomaly =
  la_mus :: "real list"
  la_sigmas :: "real list"
  la_xmin :: "real list option"
  la_xmax :: "real list option"
  la_min :: real
  la_max :: real
  la_dim :: nat
  la_vmin :: real
  la_vmax :: real

text \<open>\<open>__init__(self, vmin, vmax, mus, sigmas, xmin=None, xmax=None)\<close>.\<close>

definition LocAnomaly_init ::
  "real \<Rightarrow> real \<Rightarrow> real list \<Rightarrow> real list \<Rightarrow> real list option \<Rightarrow> real list option
     \<Rightarrow> LocAnomaly" where
  "LocAnomaly_init vmin vmax mus sigmas xmin xmax =
     \<lparr>la_mus = mus, la_sigmas = sigmas, la_xmin = xmin, la_xmax = xmax,
      la_min = min vmin vmax, la_max = max vmin vmax, la_dim = length mus,
      la_vmin = vmin, la_vmax = vmax\<rparr>"

text \<open>
  \<open>__call__(self, X)\<close>: what the call returns or raises, and the object after it. The
  exponent is \<open>- ((X - mus)**2 / 2 / sigmas**2).sum(axis=-1)\<close>, with \<open>X - mus\<close> and the
  division by \<open>sigmas**2\<close> broadcast along the last axis.
\<close>

definition LocAnomaly_call ::
  "LocAnomaly \<Rightarrow> real list list \<Rightarrow> (py_error + real list) \<times> LocAnomaly" where
  "LocAnomaly_call m X =
     (case cached (la_xmin m) (col_reduce min X) of
        Inl e \<Rightarrow> (Inl e, m)
      | Inr lo \<Rightarrow>
          let m1 = m\<lparr>la_xmin := lo\<rparr> in
          (case cached (la_xmax m1) (col_reduce max X) of
             Inl e \<Rightarrow> (Inl e, m1)
           | Inr hi \<Rightarrow>
               let m2 = m1\<lparr>la_xmax := hi\<rparr> in
               (case bbatch (\<lambda>x mu. (x - mu) ^ 2 / 2) X (la_mus m2) of
                  Inl e \<Rightarrow> (Inl e, m2)
                | Inr D \<Rightarrow>
                    (case bbatch (\<lambda>q s. q / s) D (map (\<lambda>s. s ^ 2) (la_sigmas m2)) of
                       Inl e \<Rightarrow> (Inl e, m2)
                     | Inr Q \<Rightarrow>
                         (Inr (map (\<lambda>q. (la_vmax m2 - la_vmin m2) * exp (- sum_list q)
                                         + la_vmin m2) Q),
                          m2)))))"

text \<open>
  \<open>gradient(self, X)\<close>:
  \<open>(self.__call__(X) - self.vmin)[..., None] * (self.mus - X) / self.sigmas\<close>. The value
  query comes first and may fill the cached bounds.
\<close>

definition LocAnomaly_gradient ::
  "LocAnomaly \<Rightarrow> real list list \<Rightarrow> (py_error + real list list) \<times> LocAnomaly" where
  "LocAnomaly_gradient m X =
     (case LocAnomaly_call m X of
        (Inl e, m') \<Rightarrow> (Inl e, m')
      | (Inr V, m') \<Rightarrow>
          (case bbatch (\<lambda>x mu. mu - x) X (la_mus m') of
             Inl e \<Rightarrow> (Inl e, m')
           | Inr D \<Rightarrow>
               (case bbatch (\<lambda>p s. p / s)
                       (map (\<lambda>(v, r). map (\<lambda>x. (v - la_vmin m') * x) r) (zip V D))
                       (la_sigmas m') of
                  Inl e \<Rightarrow> (Inl e, m')
                | Inr G \<Rightarrow> (Inr G, m'))))"

section \<open>Module misc: the grid interpolator\<close>



















section \<open>Module misc: the gradient-based sampler\<close>

text \<open>
  \<open>np.linspace(lo, hi, num)\<close>: \<open>num\<close> evenly spaced numbers from \<open>lo\<close> to \<open>hi\<close>; the one
  number \<open>lo\<close> when \<open>num = 1\<close>, none when \<open>num = 0\<close>.
\<close>

definition linspace :: "real \<Rightarrow> real \<Rightarrow> nat \<Rightarrow> real list" where
  "linspace lo hi num =
     (if num = 1 then [lo]
      else map (\<lambda>i. lo + real i * ((hi - lo) / real (num - 1))) [0..<num])"

text \<open>
  \<open>np.stack(np.meshgrid(*xs, indexing='ij'), axis=-1).reshape(-1, len(xs))\<close>: the points
  of the grid, the first axis varying slowest. With no axis at all \<open>np.stack\<close> raises
  ValueError.
\<close>

definition meshgrid_points :: "real list list \<Rightarrow> py_error + real list list" where
  "meshgrid_points xs = (if xs = [] then Inl ValueError else Inr (product_lists xs))"

text \<open>\<open>np.linalg.norm(dv, axis=-1)\<close> of one row.\<close>

definition norm_row :: "real list \<Rightarrow> real" where
  "norm_row r = sqrt (sum_list (map (\<lambda>x. x ^ 2) r))"

text \<open>
  The attributes of \<open>GradientBased_PDF\<close> (prefixed \<open>gb_\<close>): \<open>grad_func\<close>, the gradient
  query of the velocity model, and \<open>limits\<close>, one pair \<open>(xmin, xmax)\<close> for every axis.
\<close>

record GradientBased_PDF =
  gb_grad_func :: "real list list \<Rightarrow> py_error + real list list"
  gb_limits :: "(real \<times> real) list"

text \<open>
  \<open>__call__(self, num_pts, regular, random_base)\<close>. The two draws of the random
  generator are arguments: \<open>x_rand_base\<close>, what \<open>np.random.uniform\<close> returns, and
  \<open>rand_ids\<close>, what \<open>np.random.choice\<close> returns when it does not raise.

  \<open>int(np.sqrt(num_pts * regular))\<close> raises ValueError on the \<open>nan\<close> of a negative
  product. \<open>np.random.choice(random_base, rand_num, p=dv, replace=False)\<close> raises
  ValueError when \<open>rand_num\<close> is negative or exceeds \<open>random_base\<close>, and when the
  weights sum to 0, which makes every probability \<open>nan\<close>.
\<close>

definition GradientBased_PDF_call ::
  "GradientBased_PDF \<Rightarrow> int \<Rightarrow> real \<Rightarrow> nat \<Rightarrow> real list list \<Rightarrow> nat list
     \<Rightarrow> py_error + real list list" where
  "GradientBased_PDF_call g num_pts regular random_base x_rand_base rand_ids =
     (if real_of_int num_pts * regular < 0 then Inl ValueError
      else
        let reg_num = nat \<lfloor>sqrt (real_of_int num_pts * regular)\<rfloor> in
        (case meshgrid_points (map (\<lambda>(lo, hi). linspace lo hi reg_num) (gb_limits g)) of
           Inl e \<Rightarrow> Inl e
         | Inr x_reg \<Rightarrow>
             let rand_num = num_pts - int reg_num ^ 2 in
             (case gb_grad_func g x_rand_base of
                Inl e \<Rightarrow> Inl e
              | Inr dv \<Rightarrow>
                  let w = map norm_row dv;
                      w1 = map (\<lambda>x. x + sum_list w / real (length w)) w;
                      p = map (\<lambda>x. x / sum_list w1) w1
                  in
                  if rand_num < 0 \<or> int random_base < rand_num \<or> sum_list w1 = 0
                  then Inl ValueError
                  else Inr (x_reg @ map (\<lambda>i. x_rand_base ! i) rand_ids))))"

text \<open>
  What the random generator guarantees of its two draws: \<open>random_base\<close> candidate
  points, and \<open>rand_num\<close> distinct indices into them.
\<close>

definition draws_ok :: "nat \<Rightarrow> int \<Rightarrow> real list list \<Rightarrow> nat list \<Rightarrow> bool" where
  "draws_ok random_base rand_num x_rand_base rand_ids =
     (length x_rand_base = random_base \<and> int (length rand_ids) = rand_num
      \<and> distinct rand_ids \<and> list_all (\<lambda>i. i < random_base) rand_ids)"

section \<open>Properties of the activations\<close>

lemma split_dash_nonempty: "split_dash s \<noteq> []"
  by (induction s) auto

lemma length_split_dash:
  "length (split_dash s) = Suc (length (filter (\<lambda>c. c = CHR ''-'') s))"
  by (induction s) (auto simp: split_dash_nonempty)

lemma split_dash_single: "length (split_dash s) = 1 \<longleftrightarrow> CHR ''-'' \<notin> set s"
  by (auto simp: length_split_dash filter_empty_conv)

lemma decimal_imp_isdigit: "dg \<noteq> [] \<Longrightarrow> list_all chr_isdecimal dg \<Longrightarrow> str_isdigit dg"
  by (auto simp: str_isdigit_def chr_isdigit_def list_all_iff)

lemmas aa_eval =
  AdaptiveActivation_init_def ACTS_def str_isdigit_def chr_isdigit_def chr_isdecimal_def
  py_float_def decimal_value_def

lemma init_three_parts:
  assumes "split_dash s = [p0, nm, dg]" and "ACTS nm = Some f"
  shows "AdaptiveActivation_init s =
     (case (if str_isdigit dg then py_float dg else Inr 1) of
        Inl e \<Rightarrow> Inl e
      | Inr d \<Rightarrow> Inr \<lparr>aa_adapt = str_contains ''ad'' p0, aa_act = f, aa_n = d,
                     aa_a = (if str_contains ''ad'' p0 then Some 1 else None)\<rparr>)"
  using assms by (auto simp add: AdaptiveActivation_init_def split: sum.splits)


subsection \<open>The degree \<open>n\<close>\<close>

text \<open>
  C1 (as amended). The claim says that every floating-point numeric degree text is
  parsed. The code guards \<open>float\<close> with \<open>isdigit()\<close>, so only a non-empty run of the
  decimal characters \<open>0\<close> to \<open>9\<close> is parsed: for a three-part specifier with a registered
  name, construction then succeeds with \<open>n\<close> the number written; and whenever the degree
  part is empty or has a character that is not a digit (a point, a sign, a letter),
  construction succeeds with \<open>n = 1\<close>.
\<close>

theorem AdaptiveActivation_degree:
  assumes "split_dash s = [p0, nm, dg]" and "ACTS nm = Some f"
  shows "(dg \<noteq> [] \<and> list_all chr_isdecimal dg \<longrightarrow>
            AdaptiveActivation_init s =
              Inr \<lparr>aa_adapt = str_contains ''ad'' p0, aa_act = f,
                   aa_n = real (decimal_value dg),
                   aa_a = (if str_contains ''ad'' p0 then Some 1 else None)\<rparr>)
       \<and> (\<not> str_isdigit dg \<longrightarrow>
            AdaptiveActivation_init s =
              Inr \<lparr>aa_adapt = str_contains ''ad'' p0, aa_act = f, aa_n = 1,
                   aa_a = (if str_contains ''ad'' p0 then Some 1 else None)\<rparr>)"
  using assms by (simp add: init_three_parts decimal_imp_isdigit py_float_def)

text \<open>The theorem at \<open>'ad-gauss-2'\<close> (degree 2) and at \<open>'-tanh-x1'\<close> (degree 1).\<close>

theorem AdaptiveActivation_degree_witness:
  "AdaptiveActivation_init ''ad-gauss-2'' =
     Inr \<lparr>aa_adapt = True, aa_act = gauss, aa_n = 2, aa_a = Some 1\<rparr>
   \<and> AdaptiveActivation_init ''-tanh-x1'' =
     Inr \<lparr>aa_adapt = False, aa_act = tanh, aa_n = 1, aa_a = None\<rparr>"
proof -
  have s1: "split_dash ''ad-gauss-2'' = [''ad'', ''gauss'', ''2'']" by simp
  have f1: "ACTS ''gauss'' = Some gauss" by (simp add: ACTS_def)
  have s2: "split_dash ''-tanh-x1'' = ['''', ''tanh'', ''x1'']" by simp
  have f2: "ACTS ''tanh'' = Some tanh" by (simp add: ACTS_def)
  show ?thesis
    using AdaptiveActivation_degree [OF s1 f1] AdaptiveActivation_degree [OF s2 f2]
    by (simp add: str_isdigit_def chr_isdigit_def chr_isdecimal_def decimal_value_def)
qed

text \<open>
  The claim as stated fails at \<open>'ad-gauss-1.5'\<close>: the degree text \<open>1.5\<close> is
  floating-point numeric text, construction succeeds, and \<open>n\<close> is 1, not 1.5.
\<close>

theorem AdaptiveActivation_degree_counterexample:
  "\<not> isl (AdaptiveActivation_init ''ad-gauss-1.5'')
   \<and> aa_n (projr (AdaptiveActivation_init ''ad-gauss-1.5'')) = 1
   \<and> aa_n (projr (AdaptiveActivation_init ''ad-gauss-1.5'')) \<noteq> 3 / 2"
  by (simp add: aa_eval)

subsection \<open>The trainable weight and the evaluation\<close>



subsection \<open>When construction fails\<close>

text \<open>
  Unless the degree part passes \<open>isdigit()\<close> with a superscript digit in it,
  construction fails exactly when the specifier does not have three parts or the name
  is not registered.
\<close>

lemma AdaptiveActivation_init_fails_iff:
  assumes "\<not> (str_isdigit (last (split_dash s))
              \<and> \<not> list_all chr_isdecimal (last (split_dash s)))"
  shows "isl (AdaptiveActivation_init s) \<longleftrightarrow>
           length (split_dash s) \<noteq> 3 \<or> ACTS (split_dash s ! 1) = None"
  using assms
  by (auto simp add: AdaptiveActivation_init_def Let_def py_float_def
           split: option.splits sum.splits)

text \<open>
  C5 (the code at the failing input). The specifier \<open>ad-gauss-\<close> followed by the
  superscript two (U+00B2) splits into exactly three parts and its name \<open>gauss\<close> is
  registered, so the claim says that construction succeeds. The degree part passes
  \<open>isdigit()\<close>, \<open>float\<close> refuses it, and construction fails with ValueError.
\<close>

theorem AdaptiveActivation_init_superscript_degree:
  "split_dash (''ad-gauss-'' @ [CHR 0xB2]) = [''ad'', ''gauss'', [CHR 0xB2]]
   \<and> ACTS ''gauss'' = Some gauss
   \<and> str_isdigit [CHR 0xB2]
   \<and> AdaptiveActivation_init (''ad-gauss-'' @ [CHR 0xB2]) = Inl ValueError"
  by (simp add: aa_eval)

subsection \<open>The dispatcher\<close>

text \<open>
  C6 (as amended). For a string with no dash, \<open>Activation\<close> returns the registry
  function when the string is a registered name and the string itself otherwise,
  never an error. For a string with at least one dash it returns what the
  construction of an \<open>AdaptiveActivation\<close> from that string gives: the layer when the
  construction succeeds, whether or not the adapt marker is present, and the
  construction's error when it fails.
\<close>

theorem Activation_dispatch:
  "(CHR ''-'' \<notin> set s \<longrightarrow>
      Activation s = (case ACTS s of Some f \<Rightarrow> Inr (Function f) | None \<Rightarrow> Inr (Name s)))
   \<and> (CHR ''-'' \<in> set s \<longrightarrow>
      Activation s =
        (case AdaptiveActivation_init s of Inl e \<Rightarrow> Inl e | Inr L \<Rightarrow> Inr (Layer L)))"
  using split_dash_single [of s] by (simp add: Activation_def)

text \<open>The theorem at \<open>'gauss'\<close>, at the unregistered \<open>'gaussian'\<close> and at \<open>'-gauss-1'\<close>.\<close>

theorem Activation_dispatch_witness:
  "Activation ''gauss'' = Inr (Function gauss)
   \<and> Activation ''gaussian'' = Inr (Name ''gaussian'')
   \<and> Activation ''-gauss-1'' =
       Inr (Layer \<lparr>aa_adapt = False, aa_act = gauss, aa_n = 1, aa_a = None\<rparr>)"
proof -
  have i: "AdaptiveActivation_init ''-gauss-1'' =
              Inr \<lparr>aa_adapt = False, aa_act = gauss, aa_n = 1, aa_a = None\<rparr>"
    by (simp add: aa_eval)
  show ?thesis
    using Activation_dispatch [of "''gauss''"] Activation_dispatch [of "''gaussian''"]
          Activation_dispatch [of "''-gauss-1''"] i
    by (simp add: ACTS_def)
qed

text \<open>
  The claim as stated fails at \<open>'tanh-2'\<close>: the string has a dash, and \<open>Activation\<close>
  returns no layer but raises the AssertionError of the construction.
\<close>

theorem Activation_dispatch_counterexample:
  "CHR ''-'' \<in> set ''tanh-2'' \<and> Activation ''tanh-2'' = Inl AssertionError"
  by (simp add: Activation_def AdaptiveActivation_init_def)

section \<open>Properties of the array helpers\<close>

lemmas arr_eval =
  col_reduce_def arr_reduce_def ncols_def cached_def bbatch_def bshape_def bentry_def

lemma py_slice_init: "py_slice r 0 (- 1) = butlast r"
  by (cases r rule: rev_cases) (auto simp: py_slice_def slice_bound_def Let_def butlast_conv_take)

lemma py_slice_second_last:
  assumes "2 \<le> length r"
  shows "py_slice r (- 2) (- 1) = [r ! (length r - 2)]"
proof -
  have lo: "slice_bound (length r) (- 2) = length r - 2"
    using assms by (simp add: slice_bound_def)
  have hi: "slice_bound (length r) (- 1) = length r - 1"
    using assms by (simp add: slice_bound_def)
  have d: "length r - 1 - (length r - 2) = Suc 0" using assms by simp
  have "take (Suc 0) (drop (length r - 2) r) = [r ! (length r - 2)]"
    using assms by (simp add: take_Suc_conv_app_nth hd_drop_conv_nth take_Suc)
  then show ?thesis unfolding py_slice_def lo hi Let_def d .
qed

lemma py_slice_second_last_short:
  "length r \<le> 1 \<Longrightarrow> py_slice r (- 2) (- 1) = []"
  by (simp add: py_slice_def slice_bound_def Let_def)

lemma cached_Some [simp]: "cached (Some v) c = Inr (Some v)"
  by (simp add: cached_def)



lemma cached_Inr_keep: "cached (Some v) c = Inr r \<Longrightarrow> r = Some v"
  by simp

section \<open>Properties of the vertical-gradient and Gaussian-anomaly models\<close>

subsection \<open>The cached attributes\<close>






lemma VerticalGradient_call_keeps_dim:
  "vg_dim m = Some d \<Longrightarrow> vg_dim (snd (VerticalGradient_call m X)) = Some d"
  by (auto simp: VerticalGradient_call_def Let_def split: sum.splits)

lemma VerticalGradient_call_keeps_min:
  "vg_min m = Some b \<Longrightarrow> vg_min (snd (VerticalGradient_call m X)) = Some b"
  by (auto simp: VerticalGradient_call_def Let_def split: sum.splits)

lemma VerticalGradient_call_keeps_max:
  "vg_max m = Some b \<Longrightarrow> vg_max (snd (VerticalGradient_call m X)) = Some b"
  by (auto simp: VerticalGradient_call_def Let_def split: sum.splits)









subsection \<open>The gradient of the vertical-gradient model\<close>

text \<open>
  For rows of two or more coordinates the gradient is zero in every coordinate but
  the last, which is \<open>a\<close>; for rows of one coordinate both slices are empty.
\<close>

lemma VerticalGradient_gradient_rows:
  assumes "\<forall>r \<in> set X. length r = d" and "2 \<le> d"
  shows "VerticalGradient_gradient m X = map (\<lambda>r. replicate (d - 1) 0 @ [vg_a m]) X"
  unfolding VerticalGradient_gradient_def
proof (rule map_cong [OF refl])
  fix r assume "r \<in> set X"
  then have l: "length r = d" using assms(1) by blast
  then have "2 \<le> length r" using assms(2) by simp
  then show "map (\<lambda>_. 0) (py_slice r 0 (- 1)) @ map (\<lambda>_. vg_a m) (py_slice r (- 2) (- 1))
             = replicate (d - 1) 0 @ [vg_a m]"
    using l by (simp add: py_slice_init py_slice_second_last map_replicate_const)
qed

lemma VerticalGradient_gradient_shape_one:
  assumes "\<forall>r \<in> set X. length r = 1"
  shows "VerticalGradient_gradient m X = map (\<lambda>r. []) X"
  unfolding VerticalGradient_gradient_def
proof (rule map_cong [OF refl])
  fix r assume "r \<in> set X"
  then have l: "length r = 1" using assms(1) by blast
  then show "map (\<lambda>_. 0) (py_slice r 0 (- 1)) @ map (\<lambda>_. vg_a m) (py_slice r (- 2) (- 1))
             = []"
    by (cases r) (simp_all add: py_slice_init py_slice_second_last_short)
qed

text \<open>
  C9 (the code at the failing input). With \<open>a = 1/2\<close> and the one-dimensional batch
  \<open>[[5], [7]]\<close>, of shape \<open>(2, 1)\<close>, the claim says that the gradient is
  \<open>[[1/2], [1/2]]\<close>. \<open>X[..., :-1]\<close> and \<open>X[..., -2:-1]\<close> both have no column there, and
  the code returns an array of shape \<open>(2, 0)\<close>.
\<close>

theorem VerticalGradient_gradient_one_dim:
  "VerticalGradient_gradient (VerticalGradient_init (3 / 2) (1 / 2) None None) [[5], [7]]
     = [[], []]
   \<and> VerticalGradient_gradient (VerticalGradient_init (3 / 2) (1 / 2) None None) [[5], [7]]
     \<noteq> [[1 / 2], [1 / 2]]"
  by (simp add: VerticalGradient_gradient_def VerticalGradient_init_def py_slice_def slice_bound_def)

subsection \<open>The travel time at the source\<close>

lemma bbatch_self_rows:
  assumes "X \<noteq> []" and "\<forall>r \<in> set X. r = xs"
  shows "bbatch (\<lambda>x y. x - y) X xs = Inr (map (\<lambda>r. replicate (length xs) 0) X)"
proof -
  obtain r rs where X: "X = r # rs" using assms(1) by (cases X) auto
  then have nc: "ncols X = length xs" using assms(2) by (simp add: ncols_def)
  have "map (\<lambda>i. bentry r i - bentry xs i) [0..<length xs] = replicate (length xs) 0"
    if "r \<in> set X" for r
  proof -
    have "r = xs" using that assms(2) by blast
    then show ?thesis by (simp add: map_replicate_const)
  qed
  then show ?thesis by (simp add: bbatch_def bshape_def nc cong: map_cong)
qed

lemma VerticalGradient_call_point:
  assumes "xs \<noteq> []"
  shows "fst (VerticalGradient_call m [xs]) = Inr [vg_v0 m + vg_a m * last xs]
         \<and> vg_a (snd (VerticalGradient_call m [xs])) = vg_a m"
  using assms
  by (auto simp: VerticalGradient_call_def Let_def col_reduce_def arr_reduce_def ncols_def
        cached_def split: option.splits)

lemma time_up_zero: "time_up a (replicate k 0) = 0"
  by (simp add: time_up_def sum_list_replicate)

lemma time_down_zero:
  "0 < k \<Longrightarrow> time_down a V (replicate k 0) = 2 * V * V"
  by (simp add: time_down_def)

text \<open>
  C10. With \<open>a > 0\<close> and a positive source velocity \<open>v0 + a * zs\<close>, the travel time of
  a non-empty batch whose every row is the source point \<open>xs\<close> is 0 in every row: the
  term \<open>up\<close> is 0 on the zero row of \<open>Xdiff\<close> and \<open>down\<close> is positive there, so the
  quotient is defined and \<open>arccosh\<close> is taken at 1.
\<close>

theorem VerticalGradient_time_at_source:
  assumes "0 < vg_a m" and "0 < vg_v0 m + vg_a m * last xs"
      and "xs \<noteq> []" and "X \<noteq> []" and "\<forall>r \<in> set X. r = xs"
  shows "fst (VerticalGradient_time m X xs) = Inr (replicate (length X) 0)
       \<and> time_up (vg_a m) (replicate (length xs) 0) = 0
       \<and> 0 < time_down (vg_a m) (vg_v0 m + vg_a m * last xs) (replicate (length xs) 0)"
proof -
  let ?V = "vg_v0 m + vg_a m * last xs"
  obtain res m' where c: "VerticalGradient_call m [xs] = (res, m')"
    by (cases "VerticalGradient_call m [xs]")
  have res: "res = Inr [?V]" and a: "vg_a m' = vg_a m"
    using VerticalGradient_call_point [OF assms(3), of m] c by simp_all
  have k: "0 < length xs" using assms(3) by simp
  have nc: "ncols (map (\<lambda>r. replicate (length xs) (0::real)) X) \<noteq> 0"
    using assms(3,4) by (cases X) (simp_all add: ncols_def)
  have "fst (VerticalGradient_time m X xs) = Inr (map (\<lambda>r. 0) X)"
    using nc by (simp add: VerticalGradient_time_def bbatch_self_rows [OF assms(4,5)] c res a
         Let_def time_up_zero comp_def)
  moreover have "0 < time_down (vg_a m) ?V (replicate (length xs) 0)"
    using assms(2) by (simp add: time_down_zero [OF k])
  ultimately show ?thesis by (simp add: time_up_zero map_replicate_const)
qed

text \<open>The theorem for \<open>v0 = 3/2\<close>, \<open>a = 1/2\<close> and three copies of the source \<open>[1, 2]\<close>.\<close>

theorem VerticalGradient_time_at_source_witness:
  "fst (VerticalGradient_time (VerticalGradient_init (3 / 2) (1 / 2) None None)
          [[1, 2], [1, 2], [1, 2]] [1, 2]) = Inr [0, 0, 0]
   \<and> time_up (1 / 2) [0, 0] = 0
   \<and> 0 < time_down (1 / 2) (5 / 2) [0, 0]"
proof -
  have h: "0 < vg_a (VerticalGradient_init (3 / 2) (1 / 2) None None)"
     "0 < vg_v0 (VerticalGradient_init (3 / 2) (1 / 2) None None)
           + vg_a (VerticalGradient_init (3 / 2) (1 / 2) None None) * last [1, 2]"
    by (simp_all add: VerticalGradient_init_def)
  show ?thesis
    using VerticalGradient_time_at_source [OF h, of "[[1, 2], [1, 2], [1, 2]]"]
    by (simp add: VerticalGradient_init_def numeral_3_eq_3 numeral_2_eq_2)
qed

subsection \<open>The gradient of the Gaussian-anomaly model\<close>

text \<open>
  On a non-empty batch of points with as many coordinates as \<open>mus\<close> and \<open>sigmas\<close>, the
  value query is \<open>(vmax - vmin) * exp (- sum ((x - mu)^2 / 2 / sigma^2)) + vmin\<close> and the
  gradient query is \<open>(V - vmin) * (mu - x) / sigma\<close> in every coordinate.
\<close>

lemma bentry_nth: "i < length r \<Longrightarrow> bentry r i = r ! i"
  by (auto simp: bentry_def)

lemma bbatch_same:
  assumes "X \<noteq> []" and "\<forall>r \<in> set X. length r = d" and "length v = d"
  shows "bbatch f X v = Inr (map (\<lambda>r. map (\<lambda>i. f (r ! i) (v ! i)) [0..<d]) X)"
proof -
  have nc: "ncols X = d" using assms(1,2) by (cases X) (simp_all add: ncols_def)
  have "map (\<lambda>i. f (bentry r i) (bentry v i)) [0..<d] = map (\<lambda>i. f (r ! i) (v ! i)) [0..<d]"
    if "r \<in> set X" for r
    using that assms(2,3) by (auto simp: bentry_nth)
  then show ?thesis using assms(3) by (simp add: bbatch_def bshape_def nc cong: map_cong)
qed

lemma col_reduce_ok:
  assumes "X \<noteq> []" and "\<forall>r \<in> set X. length r = d" and "0 < d"
  shows "\<exists>v. col_reduce f X = Inr v"
  using assms by (cases X) (simp_all add: col_reduce_def ncols_def)

lemma LocAnomaly_call_value:
  assumes "X \<noteq> []" and "\<forall>r \<in> set X. length r = d" and "0 < d"
      and "length (la_mus m) = d" and "length (la_sigmas m) = d"
  shows "fst (LocAnomaly_call m X) =
     Inr (map (\<lambda>r. (la_vmax m - la_vmin m)
                     * exp (- sum_list (map (\<lambda>i. (r ! i - la_mus m ! i) ^ 2 / 2
                                                  / (la_sigmas m ! i) ^ 2) [0..<d]))
                   + la_vmin m) X)"
proof -
  obtain lo where lo: "col_reduce min X = Inr lo" using col_reduce_ok [OF assms(1-3)] by blast
  obtain hi where hi: "col_reduce max X = Inr hi" using col_reduce_ok [OF assms(1-3)] by blast
  let ?D = "map (\<lambda>r. map (\<lambda>i. (r ! i - la_mus m ! i) ^ 2 / 2) [0..<d]) X"
  have D: "bbatch (\<lambda>x mu. (x - mu) ^ 2 / 2) X (la_mus m) = Inr ?D"
    using bbatch_same [OF assms(1,2,4)] .
  have Dne: "?D \<noteq> []" using assms(1) by simp
  have Dl: "\<forall>r \<in> set ?D. length r = d" by auto
  have Q: "bbatch (\<lambda>q s. q / s) ?D (map (\<lambda>s. s ^ 2) (la_sigmas m))
     = Inr (map (\<lambda>r. map (\<lambda>i. r ! i / (map (\<lambda>s. s ^ 2) (la_sigmas m)) ! i) [0..<d]) ?D)"
    using bbatch_same [OF Dne Dl, of "map (\<lambda>s. s ^ 2) (la_sigmas m)"] assms(5) by simp
  have e: "map (\<lambda>i. (map (\<lambda>i. (r ! i - la_mus m ! i) ^ 2 / 2) [0..<d]) ! i
                    / (map (\<lambda>s. s ^ 2) (la_sigmas m)) ! i) [0..<d]
           = map (\<lambda>i. (r ! i - la_mus m ! i) ^ 2 / 2 / (la_sigmas m ! i) ^ 2) [0..<d]" for r
    using assms(5) by auto
  show ?thesis
    by (cases "la_xmin m"; cases "la_xmax m")
       (simp_all add: LocAnomaly_call_def cached_def lo hi D Q Let_def comp_def e)
qed

lemma LocAnomaly_call_params:
  "la_mus (snd (LocAnomaly_call m X)) = la_mus m
   \<and> la_sigmas (snd (LocAnomaly_call m X)) = la_sigmas m
   \<and> la_vmin (snd (LocAnomaly_call m X)) = la_vmin m
   \<and> la_vmax (snd (LocAnomaly_call m X)) = la_vmax m"
  by (auto simp: LocAnomaly_call_def Let_def split: sum.splits)

lemma LocAnomaly_gradient_formula:
  assumes "X \<noteq> []" and "\<forall>r \<in> set X. length r = d" and "0 < d"
      and "length (la_mus m) = d" and "length (la_sigmas m) = d"
  shows "fst (LocAnomaly_gradient m X) =
     Inr (map (\<lambda>r. map (\<lambda>i.
            ((la_vmax m - la_vmin m)
               * exp (- sum_list (map (\<lambda>j. (r ! j - la_mus m ! j) ^ 2 / 2
                                            / (la_sigmas m ! j) ^ 2) [0..<d]))
             + la_vmin m - la_vmin m)
            * (la_mus m ! i - r ! i) / la_sigmas m ! i) [0..<d]) X)"
proof -
  let ?val = "\<lambda>r. (la_vmax m - la_vmin m)
               * exp (- sum_list (map (\<lambda>j. (r ! j - la_mus m ! j) ^ 2 / 2
                                            / (la_sigmas m ! j) ^ 2) [0..<d]))
             + la_vmin m"
  obtain res m' where c: "LocAnomaly_call m X = (res, m')" by (cases "LocAnomaly_call m X")
  have res: "res = Inr (map ?val X)"
    using LocAnomaly_call_value [OF assms] c by simp
  have p: "la_mus m' = la_mus m" "la_sigmas m' = la_sigmas m" "la_vmin m' = la_vmin m"
    using LocAnomaly_call_params [of m X] c by simp_all
  let ?D = "map (\<lambda>r. map (\<lambda>i. la_mus m ! i - r ! i) [0..<d]) X"
  have D: "bbatch (\<lambda>x mu. mu - x) X (la_mus m) = Inr ?D"
    using bbatch_same [OF assms(1,2,4)] .
  let ?P = "map (\<lambda>r. map (\<lambda>i. (?val r - la_vmin m) * (la_mus m ! i - r ! i)) [0..<d]) X"
  have P: "map (\<lambda>(v, r). map (\<lambda>x. (v - la_vmin m) * x) r) (zip (map ?val X) ?D) = ?P"
    by (simp add: zip_map_map zip_same_conv_map comp_def)
  have Pne: "?P \<noteq> []" using assms(1) by simp
  have Pl: "\<forall>r \<in> set ?P. length r = d" by auto
  have G: "bbatch (\<lambda>p s. p / s) ?P (la_sigmas m)
     = Inr (map (\<lambda>r. map (\<lambda>i. r ! i / la_sigmas m ! i) [0..<d]) ?P)"
    using bbatch_same [OF Pne Pl assms(5)] .
  have e: "map (\<lambda>i. (map (\<lambda>i. (?val r - la_vmin m) * (la_mus m ! i - r ! i)) [0..<d]) ! i
                    / la_sigmas m ! i) [0..<d]
           = map (\<lambda>i. (?val r - la_vmin m) * (la_mus m ! i - r ! i) / la_sigmas m ! i) [0..<d]"
    for r by auto
  have "fst (LocAnomaly_gradient m X)
      = Inr (map (\<lambda>r. map (\<lambda>i. r ! i / la_sigmas m ! i) [0..<d]) ?P)"
    by (simp only: LocAnomaly_gradient_def c res p prod.case sum.case D P G fst_conv)
  then show ?thesis by (simp add: comp_def e)
qed

text \<open>
  The derivative of the value query in coordinate \<open>i\<close> divides by \<open>sigma^2\<close>, not by
  \<open>sigma\<close>.
\<close>

lemma sum_list_upt_split:
  assumes "i < d"
  shows "sum_list (map (f::nat \<Rightarrow> real) [0..<d]) = f i + sum f ({0..<d} - {i})"
proof -
  have "sum_list (map f [0..<d]) = sum f {0..<d}"
    by (simp add: interv_sum_list_conv_sum_set_nat)
  also have "\<dots> = f i + sum f ({0..<d} - {i})"
    using assms by (intro sum.remove) auto
  finally show ?thesis .
qed

lemma exponent_update:
  fixes r mus sigmas :: "real list"
  assumes "length r = d" and "i < d"
  shows "sum_list (map (\<lambda>j. ((r[i := t]) ! j - mus ! j) ^ 2 / 2 / (sigmas ! j) ^ 2) [0..<d])
       = (t - mus ! i) ^ 2 / 2 / (sigmas ! i) ^ 2
         + sum (\<lambda>j. (r ! j - mus ! j) ^ 2 / 2 / (sigmas ! j) ^ 2) ({0..<d} - {i})"
    (is "?S t = _ + ?K")
proof -
  have "?S t = ((r[i := t]) ! i - mus ! i) ^ 2 / 2 / (sigmas ! i) ^ 2
        + sum (\<lambda>j. ((r[i := t]) ! j - mus ! j) ^ 2 / 2 / (sigmas ! j) ^ 2) ({0..<d} - {i})"
    by (rule sum_list_upt_split [OF assms(2)])
  moreover have "sum (\<lambda>j. ((r[i := t]) ! j - mus ! j) ^ 2 / 2 / (sigmas ! j) ^ 2) ({0..<d} - {i})
        = ?K"
    by (rule sum.cong) auto
  ultimately show ?thesis using assms by simp
qed

lemma gaussian_derivative:
  fixes A K mu s x c :: real
  assumes "s \<noteq> 0"
  shows "((\<lambda>t. A * exp (- ((t - mu) ^ 2 / 2 / s ^ 2 + K)) + c) has_real_derivative
           (A * exp (- ((x - mu) ^ 2 / 2 / s ^ 2 + K)) + c - c) * (mu - x) / s ^ 2) (at x)"
  using assms by (auto intro!: derivative_eq_intros simp: field_simps)

lemma LocAnomaly_value_derivative:
  assumes "length r = d" and "i < d"
      and "length (la_mus m) = d" and "length (la_sigmas m) = d"
      and "la_sigmas m ! i \<noteq> 0"
  shows "((\<lambda>t. hd (projr (fst (LocAnomaly_call m [r[i := t]])))) has_real_derivative
            (hd (projr (fst (LocAnomaly_call m [r]))) - la_vmin m)
              * (la_mus m ! i - r ! i) / (la_sigmas m ! i) ^ 2) (at (r ! i))"
proof -
  let ?K = "sum (\<lambda>j. (r ! j - la_mus m ! j) ^ 2 / 2 / (la_sigmas m ! j) ^ 2) ({0..<d} - {i})"
  let ?g = "\<lambda>t. (la_vmax m - la_vmin m)
              * exp (- ((t - la_mus m ! i) ^ 2 / 2 / (la_sigmas m ! i) ^ 2 + ?K)) + la_vmin m"
  have d: "0 < d" using assms(2) by simp
  have v: "hd (projr (fst (LocAnomaly_call m [r[i := t]]))) = ?g t" for t
  proof -
    have "fst (LocAnomaly_call m [r[i := t]])
        = Inr (map (\<lambda>r. (la_vmax m - la_vmin m)
                     * exp (- sum_list (map (\<lambda>i. (r ! i - la_mus m ! i) ^ 2 / 2
                                                  / (la_sigmas m ! i) ^ 2) [0..<d]))
                   + la_vmin m) [r[i := t]])"
      by (rule LocAnomaly_call_value) (use assms d in simp_all)
    also have "\<dots> = Inr [?g t]"
      by (simp only: list.map exponent_update [OF assms(1,2)])
    finally have "fst (LocAnomaly_call m [r[i := t]]) = Inr [?g t]" .
    then show ?thesis by simp
  qed
  have "r[i := r ! i] = r" by simp
  then have v0: "hd (projr (fst (LocAnomaly_call m [r]))) = ?g (r ! i)"
    using v [of "r ! i"] by simp
  show ?thesis
    unfolding v v0 using gaussian_derivative [OF assms(5)] by simp
qed

text \<open>
  C3 (the code at the failing input). With \<open>vmin = 1\<close>, \<open>vmax = 3\<close>, \<open>mus = [0]\<close>,
  \<open>sigmas = [2]\<close> and the point \<open>X = [[1]]\<close>, the gradient query returns
  \<open>- exp (- 1/8)\<close>, which is \<open>(V - vmin) * (mu - x) / sigma\<close> as the claim says; the
  derivative of the value query at that point is \<open>- exp (- 1/8) / 2\<close>, so the returned
  number is not the derivative.
\<close>

theorem LocAnomaly_gradient_not_derivative:
  "fst (LocAnomaly_gradient (LocAnomaly_init 1 3 [0] [2] None None) [[1]])
     = Inr [[- exp (- (1 / 8))]]
   \<and> ((\<lambda>t. hd (projr (fst (LocAnomaly_call (LocAnomaly_init 1 3 [0] [2] None None) [[t]]))))
        has_real_derivative - exp (- (1 / 8)) / 2) (at 1)
   \<and> \<not> ((\<lambda>t. hd (projr (fst (LocAnomaly_call (LocAnomaly_init 1 3 [0] [2] None None) [[t]]))))
        has_real_derivative - exp (- (1 / 8))) (at 1)"
proof -
  let ?m = "LocAnomaly_init 1 3 [0] [2] None None"
  let ?f = "\<lambda>t. hd (projr (fst (LocAnomaly_call ?m [[t]])))"
  have v: "fst (LocAnomaly_call ?m [[1]]) = Inr [2 * exp (- (1 / 8)) + 1]"
    by (simp add: LocAnomaly_call_def LocAnomaly_init_def arr_eval)
  have g: "fst (LocAnomaly_gradient ?m [[1]]) = Inr [[- exp (- (1 / 8))]]"
    using LocAnomaly_gradient_formula [of "[[1]]" 1 ?m]
    by (simp add: LocAnomaly_init_def)
  have "((\<lambda>t. hd (projr (fst (LocAnomaly_call ?m [[1][0 := t]])))) has_real_derivative
            (hd (projr (fst (LocAnomaly_call ?m [[1]]))) - la_vmin ?m)
              * (la_mus ?m ! 0 - [1] ! 0) / (la_sigmas ?m ! 0) ^ 2) (at ([1] ! 0))"
    by (rule LocAnomaly_value_derivative [where d = 1]) (simp_all add: LocAnomaly_init_def)
  moreover have "la_vmin ?m = 1" "la_mus ?m = [0]" "la_sigmas ?m = [2]"
    by (simp_all add: LocAnomaly_init_def)
  ultimately have d: "(?f has_real_derivative - exp (- (1 / 8)) / 2) (at 1)"
    by (simp add: v)
  have n: "\<not> (?f has_real_derivative - exp (- (1 / 8))) (at 1)"
  proof
    assume "(?f has_real_derivative - exp (- (1 / 8))) (at 1)"
    then have "- exp (- (1 / 8)) = - exp (- (1 / 8)) / (2::real)"
      using d by (rule DERIV_unique)
    then show False by simp
  qed
  show ?thesis using g d n by blast
qed

section \<open>Properties of the grid interpolator\<close>
























section \<open>Properties of the gradient-based sampler\<close>

lemma floor_sqrt_eq:
  assumes "real k ^ 2 \<le> x" and "x < (real k + 1) ^ 2"
  shows "nat \<lfloor>sqrt x\<rfloor> = k"
proof -
  have x0: "0 \<le> x" using assms(1) by (meson order_trans zero_le_power2)
  have "real k \<le> sqrt x" using assms(1) by (simp add: real_le_rsqrt)
  moreover have "sqrt x < real k + 1"
    using assms(2) x0 by (simp add: real_less_lsqrt)
  ultimately have "\<lfloor>sqrt x\<rfloor> = int k" by (simp add: floor_unique)
  then show ?thesis by simp
qed

lemma length_linspace: "length (linspace lo hi num) = num"
  by (simp add: linspace_def)

lemma foldr_mult_replicate: "foldr (*) (replicate n k) (1::nat) = k ^ n"
  by (induction n) simp_all

lemma length_meshgrid:
  assumes "meshgrid_points (map (\<lambda>(lo, hi). linspace lo hi k) lims) = Inr x_reg"
  shows "length x_reg = k ^ length lims"
proof -
  have "x_reg = product_lists (map (\<lambda>(lo, hi). linspace lo hi k) lims)"
    using assms by (auto simp: meshgrid_points_def split: if_splits)
  then have "length x_reg = foldr (*) (map length (map (\<lambda>(lo, hi). linspace lo hi k) lims)) 1"
    by (simp add: length_product_lists)
  also have "map length (map (\<lambda>(lo, hi). linspace lo hi k) lims) = replicate (length lims) k"
    by (induction lims) (auto simp: length_linspace)
  also have "foldr (*) (replicate (length lims) k) 1 = k ^ length lims"
    by (rule foldr_mult_replicate)
  finally show ?thesis .
qed

text \<open>
  When the call returns, the point set has \<open>reg_num ^ dim\<close> rows of the regular grid
  followed by \<open>num_pts - reg_num ^ 2\<close> drawn rows, whatever \<open>dim\<close> is; these add up to
  \<open>num_pts\<close> when \<open>dim = 2\<close>.
\<close>

lemma GradientBased_PDF_call_rows:
  assumes "GradientBased_PDF_call g N r base xb ids = Inr x"
      and "draws_ok base (N - int (nat \<lfloor>sqrt (real_of_int N * r)\<rfloor>) ^ 2) xb ids"
  shows "int (length x) =
           int (nat \<lfloor>sqrt (real_of_int N * r)\<rfloor> ^ length (gb_limits g))
           + (N - int (nat \<lfloor>sqrt (real_of_int N * r)\<rfloor>) ^ 2)"
proof -
  let ?k = "nat \<lfloor>sqrt (real_of_int N * r)\<rfloor>"
  obtain x_reg where m: "meshgrid_points (map (\<lambda>(lo, hi). linspace lo hi ?k) (gb_limits g)) = Inr x_reg"
    and x: "x = x_reg @ map (\<lambda>i. xb ! i) ids"
    using assms(1)
    by (auto simp: GradientBased_PDF_call_def Let_def split: if_splits sum.splits)
  have "length x_reg = ?k ^ length (gb_limits g)" using length_meshgrid [OF m] .
  moreover have "int (length ids) = N - int ?k ^ 2" using assms(2) by (simp add: draws_ok_def)
  ultimately show ?thesis using x by simp
qed

lemma GradientBased_PDF_call_rows_two_dim:
  assumes "GradientBased_PDF_call g N r base xb ids = Inr x"
      and "draws_ok base (N - int (nat \<lfloor>sqrt (real_of_int N * r)\<rfloor>) ^ 2) xb ids"
      and "length (gb_limits g) = 2"
  shows "int (length x) = N"
  using GradientBased_PDF_call_rows [OF assms(1,2)] assms(3) by simp

lemma upt_0_2: "[0..<2] = [0, 1]"
  by (simp add: upt_rec)

lemma floor_sqrt_7: "nat \<lfloor>sqrt 7\<rfloor> = 2"
  using floor_sqrt_eq [of 2 7] by simp

text \<open>
  C2 (the code at the failing input). In three dimensions, with \<open>num_pts = 10\<close> and
  \<open>regular = 7/10\<close>, \<open>reg_num\<close> is 2 and the budget left by the grid,
  \<open>10 - 2 ^ 3\<close>, is positive, so the claim says that 2 random points are drawn and 10
  rows are returned. The code draws \<open>10 - 2 ^ 2 = 6\<close> points and returns
  \<open>2 ^ 3 + 6 = 14\<close> rows. The velocity model is a vertical gradient with \<open>a = 1\<close>, and
  the six candidates and the six chosen indices are what the generator may return
  for \<open>random_base = 6\<close>.
\<close>

theorem GradientBased_PDF_call_three_dim:
  "nat \<lfloor>sqrt (real_of_int 10 * (7 / 10))\<rfloor> = 2
   \<and> (0::int) < 10 - 2 ^ 3
   \<and> draws_ok 6 (10 - 2 ^ 2)
        [[0, 0, 0], [1, 0, 0], [0, 1, 0], [0, 0, 1], [1, 1, 0], [1, 1, 1]] [0, 1, 2, 3, 4, 5]
   \<and> \<not> isl (GradientBased_PDF_call
        \<lparr>gb_grad_func = (\<lambda>X. Inr (VerticalGradient_gradient
                           (VerticalGradient_init 1 1 (Some [0, 0, 0]) (Some [1, 1, 1])) X)),
         gb_limits = [(0, 1), (0, 1), (0, 1)]\<rparr>
        10 (7 / 10) 6
        [[0, 0, 0], [1, 0, 0], [0, 1, 0], [0, 0, 1], [1, 1, 0], [1, 1, 1]] [0, 1, 2, 3, 4, 5])
   \<and> length (projr (GradientBased_PDF_call
        \<lparr>gb_grad_func = (\<lambda>X. Inr (VerticalGradient_gradient
                           (VerticalGradient_init 1 1 (Some [0, 0, 0]) (Some [1, 1, 1])) X)),
         gb_limits = [(0, 1), (0, 1), (0, 1)]\<rparr>
        10 (7 / 10) 6
        [[0, 0, 0], [1, 0, 0], [0, 1, 0], [0, 0, 1], [1, 1, 0], [1, 1, 1]] [0, 1, 2, 3, 4, 5]))
     = 14"
  by (simp add: GradientBased_PDF_call_def floor_sqrt_7 draws_ok_def meshgrid_points_def
        linspace_def norm_row_def VerticalGradient_gradient_def VerticalGradient_init_def
        py_slice_def slice_bound_def Let_def upt_0_2)

end
